theory Spec2Isabelle
  imports Main
begin

section \<open>JavaScript values, objects and errors\<close>

text \<open>
  The service is JavaScript on Node. The values the modelled code handles are strings,
  numbers (here only the second counts of token payloads) and \<open>undefined\<close>. An object
  is a list of properties in insertion order; reading a property that the object does
  not have gives \<open>undefined\<close>, as \<open>req.user.role\<close> does in JavaScript.
\<close>

datatype jsval = Undefined | Str string | Num nat

type_synonym jsobj = "(string \<times> jsval) list"

definition js_get :: "jsobj \<Rightarrow> string \<Rightarrow> jsval" where
  "js_get obj k = (case map_of obj k of None \<Rightarrow> Undefined | Some v \<Rightarrow> v)"

definition js_keys :: "jsobj \<Rightarrow> string list" where
  "js_keys obj = map fst obj"

text \<open>
  Every \<open>throw\<close> of the service and of the libraries it calls is a value:
  \<open>Error m\<close> is \<open>new Error(m)\<close> of the service itself, \<open>TypeError p\<close> is the
  engine's error on reading or writing property \<open>p\<close> of \<open>null\<close> or \<open>undefined\<close>,
  the two token errors are the ones \<open>jsonwebtoken\<close> throws from \<open>verify\<close>, and
  \<open>MongoError\<close> is a write the store refuses.
\<close>

datatype error =
    Error string
  | TypeError string
  | JsonWebTokenError string
  | TokenExpiredError string
  | MongoError string

section \<open>The libraries: jsonwebtoken and bcrypt\<close>

text \<open>
  A token string is modelled symbolically. \<open>Jwt k p\<close> is the compact serialisation of
  the payload \<open>p\<close> signed (HS256) under the secret \<open>k\<close>; signing is deterministic, so
  two tokens are the same string exactly when secret and payload agree. \<open>Raw s\<close> is any
  other string \<open>s\<close>, for instance a token with a scheme prefix in front of it, or the
  empty string.

  \<open>jwt.sign(payload, secret, {expiresIn: n})\<close> adds \<open>iat\<close>, the clock in whole seconds,
  and \<open>exp = iat + n\<close>. \<open>jwt.verify(token, secret)\<close> returns the payload when the token
  is well formed, was signed under \<open>secret\<close> and the clock in seconds is still below
  \<open>exp\<close>, and throws otherwise. The clock \<open>now\<close> is \<open>Date.now()\<close>, in milliseconds.
\<close>

datatype token = Jwt string jsobj | Raw string

definition jwt_sign :: "jsobj \<Rightarrow> string \<Rightarrow> nat \<Rightarrow> nat \<Rightarrow> token" where
  "jwt_sign payload secret expiresIn now =
     Jwt secret (payload @ [(''iat'', Num (now div 1000)),
                            (''exp'', Num (now div 1000 + expiresIn))])"

definition jwt_verify :: "token \<Rightarrow> string \<Rightarrow> nat \<Rightarrow> error + jsobj" where
  "jwt_verify t secret now =
     (case t of
        Raw s \<Rightarrow>
          if s = [] then Inl (JsonWebTokenError ''jwt must be provided'')
          else Inl (JsonWebTokenError ''jwt malformed'')
      | Jwt k p \<Rightarrow>
          if k \<noteq> secret then Inl (JsonWebTokenError ''invalid signature'')
          else (case js_get p ''exp'' of
                  Num e \<Rightarrow>
                    if e \<le> now div 1000 then Inl (TokenExpiredError ''jwt expired'')
                    else Inr p
                | _ \<Rightarrow> Inr p))"

text \<open>
  A bcrypt hash is modelled symbolically as well: it records the salt and the part of
  the password that bcrypt reads, its first 72 bytes. \<open>bcrypt.hash(password, 10)\<close>
  draws a fresh salt, which the model takes as an argument.
\<close>

datatype pwhash = Bcrypt string string

definition bcrypt_hash :: "string \<Rightarrow> string \<Rightarrow> pwhash" where
  "bcrypt_hash pw salt = Bcrypt salt (take 72 pw)"

definition bcrypt_compare :: "string \<Rightarrow> pwhash \<Rightarrow> bool" where
  "bcrypt_compare pw h = (case h of Bcrypt salt d \<Rightarrow> take 72 pw = d)"

section \<open>The credential store\<close>

text \<open>
  Modelled from the spec: the two Mongoose schemas (\<open>mongo/schema/user\<close> and
  \<open>mongo/schema/token\<close>) are required by the model files but are not among the
  sources. Following the data model of the specification, a user has an identifier, a
  unique email, a password hash, a role, a first and a last name, and a token record
  holds both token strings, their expiry timestamps and a copy of the owning user as it
  was at issuance. \<open>user_id\<close> is the document's \<open>_id\<close>, which Mongoose also serves
  as \<open>id\<close>. The fields of a token record carry the prefix \<open>tr\<close> and those of the
  returned credentials the prefix \<open>cred\<close>: both objects call their properties
  \<open>accessToken\<close>, \<open>refreshToken\<close> and \<open>user\<close>, and \<open>refreshToken\<close> is an
  operation of the service as well.
\<close>

record user =
  user_id :: string
  email :: string
  password :: pwhash
  role :: string
  firstname :: string
  lastname :: string

record token_record =
  tr_accessToken :: token
  tr_accessTokenExpiresAt :: nat
  tr_refreshToken :: token
  tr_refreshTokenExpiresAt :: nat
  tr_user :: user

text \<open>
  A collection is the list of its documents in insertion order, the order in which
  \<open>findOne\<close> meets them. The expiry of token records by the store itself (the TTL
  index that \<open>token.model.js\<close> declares) is a step of the store, not of any operation
  of the service, and is no part of what an operation does to the store.
\<close>

record store =
  users :: "user list"
  tokens :: "token_record list"

text \<open>Property access on a user document: only the schema's paths are defined.\<close>

definition user_get :: "user \<Rightarrow> string \<Rightarrow> jsval" where
  "user_get u k =
     (if k = ''id'' then Str (user_id u)
      else if k = ''email'' then Str (email u)
      else if k = ''role'' then Str (role u)
      else if k = ''firstname'' then Str (firstname u)
      else if k = ''lastname'' then Str (lastname u)
      else Undefined)"

fun replace_first :: "('a \<Rightarrow> bool) \<Rightarrow> 'a \<Rightarrow> 'a list \<Rightarrow> 'a list" where
  "replace_first P y [] = []"
| "replace_first P y (x # xs) = (if P x then y # xs else x # replace_first P y xs)"

fun remove_first :: "('a \<Rightarrow> bool) \<Rightarrow> 'a list \<Rightarrow> 'a list" where
  "remove_first P [] = []"
| "remove_first P (x # xs) = (if P x then xs else x # remove_first P xs)"

text \<open>\<open>UserModel.findOne({email: e})\<close>\<close>

definition UserModel_findOne :: "string \<Rightarrow> store \<Rightarrow> user option" where
  "UserModel_findOne e s = find (\<lambda>u. email u = e) (users s)"

text \<open>
  \<open>UserModel.findById(id)\<close>; the argument is whatever the caller read from a token
  payload or a token record, and only a string can name a document.
\<close>

definition UserModel_findById :: "jsval \<Rightarrow> store \<Rightarrow> user option" where
  "UserModel_findById i s =
     (case i of Str k \<Rightarrow> find (\<lambda>u. user_id u = k) (users s) | _ \<Rightarrow> None)"

text \<open>
  \<open>UserModel.create(doc)\<close>: the store refuses a second document with the same
  \<open>_id\<close> or the same email.
\<close>

definition UserModel_create :: "user \<Rightarrow> store \<Rightarrow> (error + user) \<times> store" where
  "UserModel_create u s =
     (if user_id u \<in> set (map user_id (users s)) \<or> email u \<in> set (map email (users s))
      then (Inl (MongoError ''E11000 duplicate key error''), s)
      else (Inr u, s\<lparr>users := users s @ [u]\<rparr>))"

text \<open>
  \<open>doc.save()\<close> on a loaded document writes its modified paths to the stored
  document of the same \<open>_id\<close>; the store refuses an email changed to one that is in
  use.
\<close>

definition UserModel_save :: "user \<Rightarrow> store \<Rightarrow> (error + unit) \<times> store" where
  "UserModel_save u s =
     (case find (\<lambda>v. user_id v = user_id u) (users s) of
        None \<Rightarrow> (Inr (), s)
      | Some old \<Rightarrow>
          if email u \<noteq> email old \<and> email u \<in> set (map email (users s))
          then (Inl (MongoError ''E11000 duplicate key error''), s)
          else (Inr (), s\<lparr>users := replace_first (\<lambda>v. user_id v = user_id u) u (users s)\<rparr>))"

text \<open>\<open>UserModel.deleteOne({_id: id})\<close>\<close>

definition UserModel_deleteOne :: "string \<Rightarrow> store \<Rightarrow> store" where
  "UserModel_deleteOne k s = s\<lparr>users := remove_first (\<lambda>u. user_id u = k) (users s)\<rparr>"

text \<open>\<open>TokenModel.create(tokenData)\<close>\<close>

definition TokenModel_create :: "token_record \<Rightarrow> store \<Rightarrow> store" where
  "TokenModel_create td s = s\<lparr>tokens := tokens s @ [td]\<rparr>"

text \<open>\<open>TokenModel.findOne({accessToken: t})\<close>\<close>

definition TokenModel_findOne :: "token \<Rightarrow> store \<Rightarrow> token_record option" where
  "TokenModel_findOne t s = find (\<lambda>td. tr_accessToken td = t) (tokens s)"

text \<open>
  \<open>TokenModel.deleteMany({refreshToken: rt})\<close>. Both callers build this query and
  neither awaits it nor hands it a callback, so whether the store ever runs it is not in
  the hands of the service: the flag \<open>runs\<close> says whether it does.
\<close>

definition TokenModel_deleteMany :: "bool \<Rightarrow> token \<Rightarrow> store \<Rightarrow> store" where
  "TokenModel_deleteMany runs rt s =
     (if runs then s\<lparr>tokens := filter (\<lambda>td. tr_refreshToken td \<noteq> rt) (tokens s)\<rparr> else s)"

section \<open>The service (services/auth.service.js)\<close>

text \<open>The two secrets of the process environment.\<close>

record env =
  ACCESS_TOKEN_SECRET :: string
  REFRESH_TOKEN_SECRET :: string

text \<open>The object \<open>generateCredentials\<close> returns.\<close>

record credentials =
  cred_accessToken :: token
  cred_refreshToken :: token
  cred_user :: jsobj

text \<open>
  Every operation takes the store and returns its result, or the error it throws,
  together with the store as the operation leaves it. \<open>generateCredentials\<close> is called
  by \<open>refreshToken\<close> with whatever \<open>findById\<close> returned, which may be \<open>null\<close>:
  the argument is a \<open>user option\<close>.
\<close>

definition generateCredentials ::
  "env \<Rightarrow> user option \<Rightarrow> nat \<Rightarrow> store \<Rightarrow> (error + credentials) \<times> store" where
  "generateCredentials cfg usr now s =
     (case usr of
        None \<Rightarrow> (Inl (TypeError ''id''), s)
      | Some u \<Rightarrow>
          let tok = jwt_sign [(''id'', user_get u ''id'')] (ACCESS_TOKEN_SECRET cfg) 7200 now;
              rtok = jwt_sign [(''id'', user_get u ''id'')] (REFRESH_TOKEN_SECRET cfg) 604800 now;
              tokenData = \<lparr>tr_accessToken = tok,
                           tr_accessTokenExpiresAt = now + 7200000,
                           tr_refreshToken = rtok,
                           tr_refreshTokenExpiresAt = now + 604800000,
                           tr_user = u\<rparr>;
              s' = TokenModel_create tokenData s
          in (Inr \<lparr>cred_accessToken = tok,
                   cred_refreshToken = rtok,
                   cred_user = [(''id'', user_get u ''id''),
                                (''email'', user_get u ''email''),
                                (''name'', user_get u ''name'')]\<rparr>, s'))"

definition refreshToken ::
  "env \<Rightarrow> bool \<Rightarrow> token \<Rightarrow> nat \<Rightarrow> store \<Rightarrow> (error + credentials) \<times> store" where
  "refreshToken cfg runs rt now s =
     (case jwt_verify rt (REFRESH_TOKEN_SECRET cfg) now of
        Inl e \<Rightarrow> (Inl e, s)
      | Inr tok \<Rightarrow>
          let s1 = TokenModel_deleteMany runs rt s;
              usr = UserModel_findById (js_get tok ''id'') s1
          in generateCredentials cfg usr now s1)"

definition login ::
  "env \<Rightarrow> string \<Rightarrow> string \<Rightarrow> nat \<Rightarrow> store \<Rightarrow> (error + credentials) \<times> store" where
  "login cfg em pw now s =
     (case UserModel_findOne em s of
        None \<Rightarrow> (Inl (Error ''User not found''), s)
      | Some u \<Rightarrow>
          if \<not> bcrypt_compare pw (password u) then (Inl (Error ''Invalid password''), s)
          else generateCredentials cfg (Some u) now s)"

definition logout :: "bool \<Rightarrow> token \<Rightarrow> store \<Rightarrow> (error + unit) \<times> store" where
  "logout runs rt s = (Inr (), TokenModel_deleteMany runs rt s)"

text \<open>
  \<open>register\<close>: \<open>oid\<close> is the \<open>_id\<close> Mongoose draws for the new document and
  \<open>salt\<close> the salt bcrypt draws.
\<close>

definition register ::
  "env \<Rightarrow> string \<Rightarrow> string \<Rightarrow> string \<Rightarrow> string \<Rightarrow> string \<Rightarrow> string \<Rightarrow> string \<Rightarrow> nat \<Rightarrow> store
     \<Rightarrow> (error + credentials) \<times> store" where
  "register cfg oid salt em pw r fn ln now s =
     (case UserModel_create \<lparr>user_id = oid, email = em, password = bcrypt_hash pw salt,
                             role = r, firstname = fn, lastname = ln\<rparr> s of
        (Inl e, s') \<Rightarrow> (Inl e, s')
      | (Inr u, s') \<Rightarrow> generateCredentials cfg (Some u) now s')"

definition verifyToken :: "env \<Rightarrow> token \<Rightarrow> nat \<Rightarrow> error + jsobj" where
  "verifyToken cfg t now = jwt_verify t (ACCESS_TOKEN_SECRET cfg) now"

definition verifyRefreshToken :: "env \<Rightarrow> token \<Rightarrow> nat \<Rightarrow> error + jsobj" where
  "verifyRefreshToken cfg t now = jwt_verify t (REFRESH_TOKEN_SECRET cfg) now"

definition verifyUser :: "token \<Rightarrow> store \<Rightarrow> (error + user) \<times> store" where
  "verifyUser t s =
     (case TokenModel_findOne t s of
        None \<Rightarrow> (Inl (Error ''Invalid token''), s)
      | Some tokenData \<Rightarrow> (Inr (tr_user tokenData), s))"

definition validateRole :: "token \<Rightarrow> string \<Rightarrow> store \<Rightarrow> (error + user) \<times> store" where
  "validateRole t r s =
     (case TokenModel_findOne t s of
        None \<Rightarrow> (Inl (Error ''Invalid token''), s)
      | Some tokenData \<Rightarrow>
          if user_get (tr_user tokenData) ''role'' \<noteq> Str r then (Inl (Error ''Invalid role''), s)
          else (Inr (tr_user tokenData), s))"

definition updatePassword ::
  "token \<Rightarrow> string \<Rightarrow> string \<Rightarrow> store \<Rightarrow> (error + bool) \<times> store" where
  "updatePassword t pw salt s =
     (case TokenModel_findOne t s of
        None \<Rightarrow> (Inl (Error ''Invalid token''), s)
      | Some tokenData \<Rightarrow>
          (case UserModel_findById (user_get (tr_user tokenData) ''id'') s of
             None \<Rightarrow> (Inl (TypeError ''password''), s)
           | Some u \<Rightarrow>
               (case UserModel_save (u\<lparr>password := bcrypt_hash pw salt\<rparr>) s of
                  (Inl e, s') \<Rightarrow> (Inl e, s')
                | (Inr _, s') \<Rightarrow> (Inr True, s'))))"

text \<open>The four fields \<open>updateUser\<close> reads from the object in the request body.\<close>

record user_patch =
  patch_email :: string
  patch_role :: string
  patch_firstname :: string
  patch_lastname :: string

definition updateUser :: "token \<Rightarrow> user_patch \<Rightarrow> store \<Rightarrow> (error + bool) \<times> store" where
  "updateUser t p s =
     (case TokenModel_findOne t s of
        None \<Rightarrow> (Inl (Error ''Invalid token''), s)
      | Some tokenData \<Rightarrow>
          (case UserModel_findById (user_get (tr_user tokenData) ''id'') s of
             None \<Rightarrow> (Inl (TypeError ''email''), s)
           | Some userInstance \<Rightarrow>
               (case UserModel_save (userInstance\<lparr>email := patch_email p,
                                                   role := patch_role p,
                                                   firstname := patch_firstname p,
                                                   lastname := patch_lastname p\<rparr>) s of
                  (Inl e, s') \<Rightarrow> (Inl e, s')
                | (Inr _, s') \<Rightarrow> (Inr True, s'))))"

definition deleteUser :: "token \<Rightarrow> store \<Rightarrow> (error + bool) \<times> store" where
  "deleteUser t s =
     (case TokenModel_findOne t s of
        None \<Rightarrow> (Inl (Error ''Invalid token''), s)
      | Some tokenData \<Rightarrow> (Inr True, UserModel_deleteOne (user_id (tr_user tokenData)) s))"

section \<open>The access control middleware\<close>

text \<open>
  Of a request the middleware reads the two headers and writes \<open>req.user\<close>. A
  middleware either calls \<open>next()\<close> with the request as it left it, sends a response
  with a status and a body, or throws.
\<close>

record request =
  x_access_token :: "token option"
  authorization :: "token option"
  req_user :: "jsobj option"

datatype outcome = Next request | Send nat string | Threw error

text \<open>
  JavaScript's \<open>a || b\<close> on header values: a missing header and the empty string are
  falsy.
\<close>

definition truthy :: "token option \<Rightarrow> bool" where
  "truthy h = (case h of None \<Rightarrow> False | Some t \<Rightarrow> t \<noteq> Raw [])"

definition js_or :: "token option \<Rightarrow> token option \<Rightarrow> token option" where
  "js_or a b = (if truthy a then a else b)"

definition isAuthenticated :: "env \<Rightarrow> request \<Rightarrow> nat \<Rightarrow> outcome" where
  "isAuthenticated cfg req now =
     (let tok = js_or (x_access_token req) (authorization req) in
      case (if truthy tok then tok else None) of
        None \<Rightarrow> Send 401 ''Access Denied: No Token Provided!''
      | Some t \<Rightarrow>
          (case jwt_verify t (ACCESS_TOKEN_SECRET cfg) now of
             Inr claims \<Rightarrow> Next (req\<lparr>req_user := Some claims\<rparr>)
           | Inl e \<Rightarrow> Send 400 ''Invalid Token''))"

definition hasRole :: "string \<Rightarrow> request \<Rightarrow> outcome" where
  "hasRole r req =
     (case req_user req of
        None \<Rightarrow> Threw (TypeError ''role'')
      | Some u \<Rightarrow>
          if js_get u ''role'' \<noteq> Str r
          then Send 403 ''Access Denied: You dont have correct role''
          else Next req)"

section \<open>The error taxonomy of the specification\<close>

text \<open>
  The specification names the errors of the service; each name stands for the
  \<open>Error\<close> the code throws with the message shown.
\<close>

definition UserNotFound :: error where
  "UserNotFound = Error ''User not found''"

definition InvalidCredentials :: error where
  "InvalidCredentials = Error ''Invalid password''"

definition InvalidToken :: error where
  "InvalidToken = Error ''Invalid token''"

definition InvalidRole :: error where
  "InvalidRole = Error ''Invalid role''"

section \<open>Example data\<close>

text \<open>
  A configuration, the empty store, and the store after one registration at clock
  1000000 ms: the administrator Ann, with the token record that \<open>register\<close> writes.
\<close>

definition example_env :: env where
  "example_env = \<lparr>ACCESS_TOKEN_SECRET = ''access-secret'',
                   REFRESH_TOKEN_SECRET = ''refresh-secret''\<rparr>"

definition empty_store :: store where
  "empty_store = \<lparr>users = [], tokens = []\<rparr>"

definition ann :: user where
  "ann = \<lparr>user_id = ''u1'', email = ''a@b.com'', password = bcrypt_hash ''pw123'' ''salt1'',
           role = ''admin'', firstname = ''Ann'', lastname = ''Lee''\<rparr>"

definition ann_access :: token where
  "ann_access = jwt_sign [(''id'', Str ''u1'')] ''access-secret'' 7200 1000000"

definition ann_refresh :: token where
  "ann_refresh = jwt_sign [(''id'', Str ''u1'')] ''refresh-secret'' 604800 1000000"

definition ann_record :: token_record where
  "ann_record = \<lparr>tr_accessToken = ann_access, tr_accessTokenExpiresAt = 8200000,
                  tr_refreshToken = ann_refresh, tr_refreshTokenExpiresAt = 605800000,
                  tr_user = ann\<rparr>"

definition ann_store :: store where
  "ann_store =
     snd (register example_env ''u1'' ''salt1'' ''a@b.com'' ''pw123'' ''admin'' ''Ann'' ''Lee''
            1000000 empty_store)"

text \<open>
  A second registration, at clock 1500000 ms: Bob, an ordinary member.
\<close>

definition bob :: user where
  "bob = \<lparr>user_id = ''u2'', email = ''bob@b.com'', password = bcrypt_hash ''hunter2'' ''salt2'',
           role = ''member'', firstname = ''Bob'', lastname = ''Ray''\<rparr>"

definition bob_access :: token where
  "bob_access = jwt_sign [(''id'', Str ''u2'')] ''access-secret'' 7200 1500000"

definition bob_refresh :: token where
  "bob_refresh = jwt_sign [(''id'', Str ''u2'')] ''refresh-secret'' 604800 1500000"

definition bob_record :: token_record where
  "bob_record = \<lparr>tr_accessToken = bob_access, tr_accessTokenExpiresAt = 8700000,
                  tr_refreshToken = bob_refresh, tr_refreshTokenExpiresAt = 606300000,
                  tr_user = bob\<rparr>"

definition two_store :: store where
  "two_store =
     snd (register example_env ''u2'' ''salt2'' ''bob@b.com'' ''hunter2'' ''member'' ''Bob'' ''Ray''
            1500000 ann_store)"

section \<open>Facts about the store and the libraries\<close>

lemma find_Some_holds: "find P xs = Some x \<Longrightarrow> P x \<and> x \<in> set xs"
  by (auto simp: find_Some_iff)

lemma find_None_image: "(find (\<lambda>x. f x = k) xs = None) = (k \<notin> f ` set xs)"
  by (auto simp: find_None_iff)

lemma find_append_None: "find P xs = None \<Longrightarrow> find P (xs @ ys) = find P ys"
  by (induction xs) (auto split: if_splits)

lemma remove_first_distinct:
  "distinct (map f xs) \<Longrightarrow> remove_first (\<lambda>x. f x = k) xs = filter (\<lambda>x. f x \<noteq> k) xs"
proof (induction xs)
  case Nil
  then show ?case by simp
next
  case (Cons x xs)
  show ?case
  proof (cases "f x = k")
    case True
    with Cons.prems have "k \<notin> f ` set xs" by auto
    then have "filter (\<lambda>x. f x \<noteq> k) xs = xs" by (auto simp: filter_id_conv)
    with True show ?thesis by simp
  next
    case False
    with Cons show ?thesis by simp
  qed
qed

lemma jwt_verify_sign_id:
  "jwt_verify (jwt_sign [(''id'', v)] k n now) k now' =
     (if now div 1000 + n \<le> now' div 1000 then Inl (TokenExpiredError ''jwt expired'')
      else Inr [(''id'', v), (''iat'', Num (now div 1000)), (''exp'', Num (now div 1000 + n))])"
  by (simp add: jwt_verify_def jwt_sign_def js_get_def)

lemma tokens_UserModel_save: "tokens (snd (UserModel_save u s)) = tokens s"
  by (simp add: UserModel_save_def split: option.splits)

lemma users_TokenModel_deleteMany: "users (TokenModel_deleteMany runs rt s) = users s"
  by (simp add: TokenModel_deleteMany_def)

lemma tokens_after_save:
  "tokens (snd (case UserModel_save w s of (Inl e, s') \<Rightarrow> (Inl e, s')
                                         | (Inr _, s') \<Rightarrow> (Inr True, s'))) = tokens s"
proof (cases "UserModel_save w s")
  case (Pair r s')
  with tokens_UserModel_save [of w s] have "tokens s' = tokens s" by simp
  with Pair show ?thesis by (cases r) simp_all
qed

lemma tokens_updateUser: "tokens (snd (updateUser t p s)) = tokens s"
  by (simp add: updateUser_def tokens_after_save split: option.splits)

lemma tokens_updatePassword: "tokens (snd (updatePassword t pw salt s)) = tokens s"
  by (simp add: updatePassword_def tokens_after_save split: option.splits)

lemma tokens_deleteUser: "tokens (snd (deleteUser t s)) = tokens s"
  by (simp add: deleteUser_def UserModel_deleteOne_def split: option.splits)

lemma verifyUser_tokens:
  "tokens s' = tokens s \<Longrightarrow> fst (verifyUser t s') = fst (verifyUser t s)"
  by (simp add: verifyUser_def TokenModel_findOne_def split: option.splits)

lemma ann_store_eq: "ann_store = \<lparr>users = [ann], tokens = [ann_record]\<rparr>"
  by (simp add: ann_store_def register_def UserModel_create_def empty_store_def
      generateCredentials_def Let_def TokenModel_create_def example_env_def ann_def
      ann_record_def ann_access_def ann_refresh_def user_get_def)

lemma two_store_eq: "two_store = \<lparr>users = [ann, bob], tokens = [ann_record, bob_record]\<rparr>"
  by (simp add: two_store_def ann_store_eq register_def UserModel_create_def
      generateCredentials_def Let_def TokenModel_create_def example_env_def ann_def bob_def
      bob_record_def bob_access_def bob_refresh_def user_get_def bcrypt_hash_def)

lemma ann_access_neq_bob: "ann_access \<noteq> bob_access"
  by (simp add: ann_access_def bob_access_def jwt_sign_def)

section \<open>Login\<close>

text \<open>
  Claim C6. For every email and password, \<open>login\<close> fails with \<open>UserNotFound\<close>
  when no user of the store has that email; it fails with \<open>InvalidCredentials\<close> when
  the user found by that email does not pass the bcrypt comparison; and otherwise it
  returns what \<open>generateCredentials\<close> returns for that user. In both failures the store
  is left as it was.
\<close>

theorem login_cases:
  "(em \<notin> email ` set (users s) \<longrightarrow> login cfg em pw now s = (Inl UserNotFound, s)) \<and>
   (\<forall>u. UserModel_findOne em s = Some u \<and> \<not> bcrypt_compare pw (password u) \<longrightarrow>
        login cfg em pw now s = (Inl InvalidCredentials, s)) \<and>
   (\<forall>u. UserModel_findOne em s = Some u \<and> bcrypt_compare pw (password u) \<longrightarrow>
        login cfg em pw now s = generateCredentials cfg (Some u) now s)"
  by (simp add: login_def UserModel_findOne_def find_None_image [symmetric]
      UserNotFound_def InvalidCredentials_def)

theorem login_cases_witness:
  "login example_env ''nobody@b.com'' ''pw123'' 2000000 ann_store = (Inl UserNotFound, ann_store) \<and>
   login example_env ''a@b.com'' ''guess'' 2000000 ann_store = (Inl InvalidCredentials, ann_store) \<and>
   login example_env ''a@b.com'' ''pw123'' 2000000 ann_store =
     generateCredentials example_env (Some ann) 2000000 ann_store"
  using login_cases [where em = "''nobody@b.com''" and s = ann_store and cfg = example_env
                       and pw = "''pw123''" and now = 2000000]
        login_cases [where em = "''a@b.com''" and s = ann_store and cfg = example_env
                       and pw = "''guess''" and now = 2000000]
        login_cases [where em = "''a@b.com''" and s = ann_store and cfg = example_env
                       and pw = "''pw123''" and now = 2000000]
  by (simp add: ann_store_eq UserModel_findOne_def ann_def bcrypt_compare_def bcrypt_hash_def)

section \<open>Role validation\<close>

text \<open>
  Claim C7. For every token and role, \<open>validateRole\<close> fails with \<open>InvalidToken\<close>
  when no token record has that access token string; it fails with \<open>InvalidRole\<close> when
  the record found has an embedded user whose role is not the requested one; and
  otherwise it returns that embedded user. The store is never changed.
\<close>

theorem validateRole_cases:
  "(t \<notin> tr_accessToken ` set (tokens s) \<longrightarrow> validateRole t r s = (Inl InvalidToken, s)) \<and>
   (\<forall>td. TokenModel_findOne t s = Some td \<and> role (tr_user td) \<noteq> r \<longrightarrow>
        validateRole t r s = (Inl InvalidRole, s)) \<and>
   (\<forall>td. TokenModel_findOne t s = Some td \<and> role (tr_user td) = r \<longrightarrow>
        validateRole t r s = (Inr (tr_user td), s))"
  by (simp add: validateRole_def TokenModel_findOne_def find_None_image [symmetric]
      InvalidToken_def InvalidRole_def user_get_def)

theorem validateRole_cases_witness:
  "validateRole (Raw ''no-such-token'') ''admin'' two_store = (Inl InvalidToken, two_store) \<and>
   validateRole bob_access ''admin'' two_store = (Inl InvalidRole, two_store) \<and>
   validateRole ann_access ''admin'' two_store = (Inr ann, two_store)"
  using validateRole_cases [where t = "Raw ''no-such-token''" and r = "''admin''" and s = two_store]
        validateRole_cases [where t = bob_access and r = "''admin''" and s = two_store]
        validateRole_cases [where t = ann_access and r = "''admin''" and s = two_store]
  by (simp add: two_store_eq TokenModel_findOne_def ann_record_def bob_record_def
      ann_access_def bob_access_def jwt_sign_def ann_def bob_def)

section \<open>Deleting a user\<close>

text \<open>
  Claim C8. When the token resolves to a token record, \<open>deleteUser\<close> succeeds, the
  users left are exactly those whose identifier is not the one of the record's user
  (identifiers being unique in the collection, as the store guarantees for \<open>_id\<close>), and
  every token record stays as it was: nothing cascades to the tokens.
\<close>

theorem deleteUser_frame:
  assumes "TokenModel_findOne t s = Some td" and "distinct (map user_id (users s))"
  shows "deleteUser t s =
           (Inr True, s\<lparr>users := filter (\<lambda>u. user_id u \<noteq> user_id (tr_user td)) (users s)\<rparr>) \<and>
         tokens (snd (deleteUser t s)) = tokens s"
  using assms by (simp add: deleteUser_def UserModel_deleteOne_def remove_first_distinct)

theorem deleteUser_frame_witness:
  "deleteUser ann_access two_store =
     (Inr True, \<lparr>users = [bob], tokens = [ann_record, bob_record]\<rparr>) \<and>
   tokens (snd (deleteUser ann_access two_store)) = [ann_record, bob_record]"
proof -
  have f: "TokenModel_findOne ann_access two_store = Some ann_record"
    by (simp add: two_store_eq TokenModel_findOne_def ann_record_def)
  have d: "distinct (map user_id (users two_store))"
    by (simp add: two_store_eq ann_def bob_def)
  from deleteUser_frame [OF f d] show ?thesis
    by (simp add: two_store_eq ann_record_def ann_def bob_def)
qed

section \<open>Issuing credentials\<close>

text \<open>
  Claim C4. For every user, \<open>generateCredentials\<close> succeeds and returns the access
  token and the refresh token it signed, both with the user's identifier as subject,
  and a user view whose properties are exactly \<open>id\<close>, \<open>email\<close> and \<open>name\<close>, in
  this order, holding the user's identifier, the user's email and the user's \<open>name\<close>
  property. The returned object does not depend on the password hash: the same user
  with any other hash \<open>h\<close> gets the very same object. The call leaves the users as they
  were and appends one token record, which holds the two returned tokens, their expiry
  times and the user document.
\<close>

theorem generateCredentials_redacted:
  "\<exists>c s'. generateCredentials cfg (Some u) now s = (Inr c, s') \<and>
          cred_accessToken c = jwt_sign [(''id'', Str (user_id u))] (ACCESS_TOKEN_SECRET cfg) 7200 now \<and>
          cred_refreshToken c = jwt_sign [(''id'', Str (user_id u))] (REFRESH_TOKEN_SECRET cfg) 604800 now \<and>
          js_keys (cred_user c) = [''id'', ''email'', ''name''] \<and>
          cred_user c = [(''id'', Str (user_id u)), (''email'', Str (email u)),
                         (''name'', user_get u ''name'')] \<and>
          js_get (cred_user c) ''id'' = Str (user_id u) \<and>
          js_get (cred_user c) ''email'' = Str (email u) \<and>
          js_get (cred_user c) ''name'' = Undefined \<and>
          js_get (cred_user c) ''password'' = Undefined \<and>
          users s' = users s \<and>
          tokens s' = tokens s @ [\<lparr>tr_accessToken = cred_accessToken c,
                                   tr_accessTokenExpiresAt = now + 7200000,
                                   tr_refreshToken = cred_refreshToken c,
                                   tr_refreshTokenExpiresAt = now + 604800000,
                                   tr_user = u\<rparr>] \<and>
          fst (generateCredentials cfg (Some (u\<lparr>password := h\<rparr>)) now s) = Inr c"
  by (simp add: generateCredentials_def Let_def js_keys_def js_get_def user_get_def
      TokenModel_create_def)

theorem generateCredentials_redacted_witness:
  "\<exists>c s'. generateCredentials example_env (Some ann) 2000000 ann_store = (Inr c, s') \<and>
          js_keys (cred_user c) = [''id'', ''email'', ''name''] \<and>
          cred_user c = [(''id'', Str ''u1''), (''email'', Str ''a@b.com''), (''name'', Undefined)] \<and>
          js_get (cred_user c) ''password'' = Undefined \<and>
          users s' = [ann] \<and>
          length (tokens s') = 2 \<and>
          fst (generateCredentials example_env
                 (Some (ann\<lparr>password := bcrypt_hash ''other'' ''salt9''\<rparr>)) 2000000 ann_store) = Inr c"
proof -
  from generateCredentials_redacted
         [of example_env ann 2000000 ann_store "bcrypt_hash ''other'' ''salt9''"]
  obtain c s' where g: "generateCredentials example_env (Some ann) 2000000 ann_store = (Inr c, s')"
    and k: "js_keys (cred_user c) = [''id'', ''email'', ''name'']"
    and v: "cred_user c = [(''id'', Str (user_id ann)), (''email'', Str (email ann)),
                           (''name'', user_get ann ''name'')]"
    and p: "js_get (cred_user c) ''password'' = Undefined"
    and us: "users s' = users ann_store"
    and ts: "tokens s' = tokens ann_store @
               [\<lparr>tr_accessToken = cred_accessToken c, tr_accessTokenExpiresAt = 2000000 + 7200000,
                 tr_refreshToken = cred_refreshToken c,
                 tr_refreshTokenExpiresAt = 2000000 + 604800000, tr_user = ann\<rparr>]"
    and i: "fst (generateCredentials example_env
                   (Some (ann\<lparr>password := bcrypt_hash ''other'' ''salt9''\<rparr>)) 2000000 ann_store) =
              Inr c"
    by blast
  from v have v': "cred_user c =
      [(''id'', Str ''u1''), (''email'', Str ''a@b.com''), (''name'', Undefined)]"
    by (simp add: ann_def user_get_def)
  from us have us': "users s' = [ann]" by (simp add: ann_store_eq)
  from ts have ts': "length (tokens s') = 2" by (simp add: ann_store_eq)
  from g k v' p us' ts' i show ?thesis by blast
qed

section \<open>The token header\<close>

text \<open>
  Claim C10, as amended. The middleware verifies the header value as it stands, and
  only the one value it selects: \<open>x-access-token\<close>, or \<open>authorization\<close> when the
  former is missing or empty. When no non-empty value is there, the request is answered
  with status 401. When the selected value is a non-empty string that does not verify
  under the access token secret, the request is answered with status 400 and
  \<open>Invalid Token\<close>. No scheme prefix is stripped: a selected header that starts with
  \<open>Bearer\<close> and a blank is a string that is no compact token, and it is rejected with
  status 400 whatever follows the prefix, in either header.
\<close>

theorem isAuthenticated_verbatim:
  "(\<not> truthy (js_or (x_access_token req) (authorization req)) \<longrightarrow>
      isAuthenticated cfg req now = Send 401 ''Access Denied: No Token Provided!'') \<and>
   (\<forall>t e. js_or (x_access_token req) (authorization req) = Some t \<and> t \<noteq> Raw [] \<and>
          jwt_verify t (ACCESS_TOKEN_SECRET cfg) now = Inl e \<longrightarrow>
          isAuthenticated cfg req now = Send 400 ''Invalid Token'') \<and>
   isAuthenticated cfg (req\<lparr>x_access_token := Some (Raw (''Bearer '' @ txt))\<rparr>) now =
     Send 400 ''Invalid Token'' \<and>
   (\<not> truthy (x_access_token req) \<longrightarrow>
      isAuthenticated cfg (req\<lparr>authorization := Some (Raw (''Bearer '' @ txt))\<rparr>) now =
        Send 400 ''Invalid Token'')"
proof (intro conjI allI impI)
  assume "\<not> truthy (js_or (x_access_token req) (authorization req))"
  then show "isAuthenticated cfg req now = Send 401 ''Access Denied: No Token Provided!''"
    by (simp add: isAuthenticated_def Let_def)
next
  fix t e
  assume "js_or (x_access_token req) (authorization req) = Some t \<and> t \<noteq> Raw [] \<and>
          jwt_verify t (ACCESS_TOKEN_SECRET cfg) now = Inl e"
  then show "isAuthenticated cfg req now = Send 400 ''Invalid Token''"
    by (simp add: isAuthenticated_def Let_def truthy_def)
next
  show "isAuthenticated cfg (req\<lparr>x_access_token := Some (Raw (''Bearer '' @ txt))\<rparr>) now =
          Send 400 ''Invalid Token''"
    by (simp add: isAuthenticated_def Let_def truthy_def js_or_def jwt_verify_def)
next
  assume "\<not> truthy (x_access_token req)"
  then show "isAuthenticated cfg (req\<lparr>authorization := Some (Raw (''Bearer '' @ txt))\<rparr>) now =
          Send 400 ''Invalid Token''"
    by (simp add: isAuthenticated_def Let_def truthy_def js_or_def jwt_verify_def)
qed

theorem isAuthenticated_verbatim_witness:
  "isAuthenticated example_env
     \<lparr>x_access_token = None, authorization = None, req_user = None\<rparr> 2000000 =
     Send 401 ''Access Denied: No Token Provided!'' \<and>
   isAuthenticated example_env
     \<lparr>x_access_token = None, authorization = Some (Raw ''Bearer eyJhbGciOiJIUzI1NiJ9.e30.sig''),
      req_user = None\<rparr> 2000000 = Send 400 ''Invalid Token'' \<and>
   isAuthenticated example_env
     \<lparr>x_access_token = Some ann_refresh, authorization = Some ann_access, req_user = None\<rparr>
     2000000 = Send 400 ''Invalid Token'' \<and>
   isAuthenticated example_env
     \<lparr>x_access_token = Some (Raw []), authorization = Some (Raw ''Bearer abc''),
      req_user = None\<rparr> 2000000 = Send 400 ''Invalid Token''"
proof -
  let ?r0 = "\<lparr>x_access_token = None, authorization = None, req_user = None\<rparr>"
  let ?r1 = "\<lparr>x_access_token = None,
              authorization = Some (Raw ''Bearer eyJhbGciOiJIUzI1NiJ9.e30.sig''), req_user = None\<rparr>"
  let ?r2 = "\<lparr>x_access_token = Some ann_refresh, authorization = Some ann_access,
              req_user = None\<rparr>"
  let ?r3 = "\<lparr>x_access_token = Some (Raw []), authorization = None, req_user = None\<rparr>"
  have z: "\<not> truthy (js_or (x_access_token ?r0) (authorization ?r0))"
    by (simp add: js_or_def truthy_def)
  have a: "js_or (x_access_token ?r1) (authorization ?r1) =
             Some (Raw ''Bearer eyJhbGciOiJIUzI1NiJ9.e30.sig'') \<and>
           Raw ''Bearer eyJhbGciOiJIUzI1NiJ9.e30.sig'' \<noteq> Raw [] \<and>
           jwt_verify (Raw ''Bearer eyJhbGciOiJIUzI1NiJ9.e30.sig'')
             (ACCESS_TOKEN_SECRET example_env) 2000000 = Inl (JsonWebTokenError ''jwt malformed'')"
    by (simp add: js_or_def truthy_def jwt_verify_def)
  have b: "js_or (x_access_token ?r2) (authorization ?r2) = Some ann_refresh \<and>
           ann_refresh \<noteq> Raw [] \<and>
           jwt_verify ann_refresh (ACCESS_TOKEN_SECRET example_env) 2000000 =
             Inl (JsonWebTokenError ''invalid signature'')"
    by (simp add: js_or_def truthy_def jwt_verify_def ann_refresh_def jwt_sign_def example_env_def)
  have c: "\<not> truthy (x_access_token ?r3)"
    by (simp add: truthy_def)
  from isAuthenticated_verbatim [THEN conjunct1, rule_format, OF z]
       isAuthenticated_verbatim [THEN conjunct2, THEN conjunct1, rule_format, OF a]
       isAuthenticated_verbatim [THEN conjunct2, THEN conjunct1, rule_format, OF b]
       isAuthenticated_verbatim [THEN conjunct2, THEN conjunct2, THEN conjunct2, rule_format,
         OF c, of example_env "''abc''" 2000000]
  show ?thesis by simp
qed

text \<open>
  Claim C10 as stated speaks of every request one of whose two header values is not a
  token that verifies. Two requests show what the code does instead. An empty
  \<open>x-access-token\<close> with no \<open>authorization\<close> is a value that does not verify, and
  the answer is 401, not 400. A valid \<open>x-access-token\<close> together with an
  \<open>authorization\<close> value that does not verify is let through: the second header is
  never read.
\<close>

theorem isAuthenticated_header_counterexample:
  "jwt_verify (Raw []) (ACCESS_TOKEN_SECRET example_env) 2000000 =
     Inl (JsonWebTokenError ''jwt must be provided'') \<and>
   isAuthenticated example_env
     \<lparr>x_access_token = Some (Raw []), authorization = None, req_user = None\<rparr> 2000000 =
     Send 401 ''Access Denied: No Token Provided!'' \<and>
   isAuthenticated example_env
     \<lparr>x_access_token = Some (Raw []), authorization = None, req_user = None\<rparr> 2000000 \<noteq>
     Send 400 ''Invalid Token'' \<and>
   jwt_verify (Raw ''Bearer abc'') (ACCESS_TOKEN_SECRET example_env) 2000000 =
     Inl (JsonWebTokenError ''jwt malformed'') \<and>
   isAuthenticated example_env
     \<lparr>x_access_token = Some ann_access, authorization = Some (Raw ''Bearer abc''),
      req_user = None\<rparr> 2000000 =
     Next \<lparr>x_access_token = Some ann_access, authorization = Some (Raw ''Bearer abc''),
           req_user = Some [(''id'', Str ''u1''), (''iat'', Num 1000), (''exp'', Num 8200)]\<rparr>"
  by (simp add: isAuthenticated_def Let_def truthy_def js_or_def jwt_verify_def js_get_def
      ann_access_def jwt_sign_def example_env_def)

section \<open>The user that a token resolves to\<close>

text \<open>
  Claim C9. When a token record exists for the access token, \<open>verifyUser\<close> returns the
  user embedded in that record, and it returns the same user after any \<open>updateUser\<close>,
  \<open>updatePassword\<close> or \<open>deleteUser\<close>, whichever token those are called with. The
  embedded user is the whole user document handed to \<open>generateCredentials\<close>, password
  hash included: resolving a freshly issued access token, one no earlier record holds,
  gives back exactly that document.
\<close>

theorem verifyUser_snapshot:
  "(\<forall>td. TokenModel_findOne t s = Some td \<longrightarrow>
      verifyUser t s = (Inr (tr_user td), s) \<and>
      fst (verifyUser t (snd (updateUser t2 p s))) = Inr (tr_user td) \<and>
      fst (verifyUser t (snd (updatePassword t3 pw salt s))) = Inr (tr_user td) \<and>
      fst (verifyUser t (snd (deleteUser t4 s))) = Inr (tr_user td)) \<and>
   (\<forall>c s'. TokenModel_findOne (cred_accessToken c) s = None \<and>
      generateCredentials cfg (Some u) now s = (Inr c, s') \<longrightarrow>
      fst (verifyUser (cred_accessToken c) s') = Inr u)"
proof (intro conjI allI impI)
  fix td assume f: "TokenModel_findOne t s = Some td"
  then show v: "verifyUser t s = (Inr (tr_user td), s)" by (simp add: verifyUser_def)
  show "fst (verifyUser t (snd (updateUser t2 p s))) = Inr (tr_user td)"
    using v verifyUser_tokens [OF tokens_updateUser, of t t2 p s] by simp
  show "fst (verifyUser t (snd (updatePassword t3 pw salt s))) = Inr (tr_user td)"
    using v verifyUser_tokens [OF tokens_updatePassword, of t t3 pw salt s] by simp
  show "fst (verifyUser t (snd (deleteUser t4 s))) = Inr (tr_user td)"
    using v verifyUser_tokens [OF tokens_deleteUser, of t t4 s] by simp
next
  fix c s'
  assume a: "TokenModel_findOne (cred_accessToken c) s = None \<and>
      generateCredentials cfg (Some u) now s = (Inr c, s')"
  then have n: "find (\<lambda>td. tr_accessToken td = cred_accessToken c) (tokens s) = None"
    by (simp add: TokenModel_findOne_def)
  from a have g: "generateCredentials cfg (Some u) now s = (Inr c, s')" by simp
  then have "\<exists>td. tokens s' = tokens s @ [td] \<and> tr_accessToken td = cred_accessToken c \<and> tr_user td = u"
    by (auto simp: generateCredentials_def Let_def TokenModel_create_def)
  then obtain td where "tokens s' = tokens s @ [td]" "tr_accessToken td = cred_accessToken c" "tr_user td = u"
    by blast
  with n show "fst (verifyUser (cred_accessToken c) s') = Inr u"
    by (simp add: verifyUser_def TokenModel_findOne_def find_append_None)
qed

theorem verifyUser_snapshot_witness:
  "verifyUser ann_access two_store = (Inr ann, two_store) \<and>
   fst (verifyUser ann_access
          (snd (updateUser bob_access
                  \<lparr>patch_email = ''ann@c.org'', patch_role = ''member'',
                   patch_firstname = ''A'', patch_lastname = ''L''\<rparr> two_store))) = Inr ann \<and>
   fst (verifyUser ann_access (snd (updatePassword ann_access ''pw456'' ''salt3'' two_store))) =
     Inr ann \<and>
   fst (verifyUser ann_access (snd (deleteUser ann_access two_store))) = Inr ann \<and>
   fst (verifyUser bob_access two_store) = Inr bob"
proof -
  have f: "TokenModel_findOne ann_access two_store = Some ann_record"
    by (simp add: two_store_eq TokenModel_findOne_def ann_record_def)
  let ?c = "\<lparr>cred_accessToken = bob_access, cred_refreshToken = bob_refresh,
             cred_user = [(''id'', Str ''u2''), (''email'', Str ''bob@b.com''),
                          (''name'', Undefined)]\<rparr>"
  let ?s = "\<lparr>users = [ann, bob], tokens = [ann_record]\<rparr>"
  have n1: "TokenModel_findOne (cred_accessToken ?c) ?s = None"
    using ann_access_neq_bob
    by (simp add: TokenModel_findOne_def ann_record_def)
  have n2: "generateCredentials example_env (Some bob) 1500000 ?s = (Inr ?c, two_store)"
    by (simp add: two_store_eq generateCredentials_def Let_def
        TokenModel_create_def example_env_def bob_def bob_record_def bob_access_def
        bob_refresh_def user_get_def)
  from n1 n2 have n: "TokenModel_findOne (cred_accessToken ?c) ?s = None \<and>
      generateCredentials example_env (Some bob) 1500000 ?s = (Inr ?c, two_store)"
    by simp
  from verifyUser_snapshot [THEN conjunct1, rule_format, OF f]
       verifyUser_snapshot [THEN conjunct2, rule_format, OF n]
  show ?thesis by (simp add: ann_record_def)
qed

section \<open>The role gate\<close>

text \<open>
  Claim C1. What the code does with a token that \<open>generateCredentials\<close> issued: the
  payload it signs holds the user's \<open>id\<close> and nothing else, so the claims that
  \<open>isAuthenticated\<close> attaches are \<open>id\<close>, \<open>iat\<close> and \<open>exp\<close>, without a role,
  and \<open>hasRole r\<close> answers 403 for every required role \<open>r\<close>, the user's own role
  included. The gate never proceeds for an issued token.
\<close>

theorem hasRole_rejects_issued_token:
  assumes "generateCredentials cfg (Some u) now s = (Inr c, s')"
    and "js_or (x_access_token req) (authorization req) = Some (cred_accessToken c)"
    and "now' div 1000 < now div 1000 + 7200"
  shows "isAuthenticated cfg req now' =
           Next (req\<lparr>req_user := Some [(''id'', Str (user_id u)), (''iat'', Num (now div 1000)),
                                       (''exp'', Num (now div 1000 + 7200))]\<rparr>) \<and>
         hasRole r (req\<lparr>req_user := Some [(''id'', Str (user_id u)), (''iat'', Num (now div 1000)),
                                           (''exp'', Num (now div 1000 + 7200))]\<rparr>) =
           Send 403 ''Access Denied: You dont have correct role''"
proof -
  from assms(1) have c: "cred_accessToken c =
      jwt_sign [(''id'', Str (user_id u))] (ACCESS_TOKEN_SECRET cfg) 7200 now"
    by (auto simp: generateCredentials_def Let_def user_get_def)
  have t: "truthy (Some (cred_accessToken c))"
    by (simp add: truthy_def c jwt_sign_def)
  have 1: "isAuthenticated cfg req now' =
           Next (req\<lparr>req_user := Some [(''id'', Str (user_id u)), (''iat'', Num (now div 1000)),
                                       (''exp'', Num (now div 1000 + 7200))]\<rparr>)"
    using assms(2,3) t
    by (simp add: isAuthenticated_def Let_def c jwt_verify_sign_id)
  have 2: "hasRole r (req\<lparr>req_user := Some [(''id'', Str (user_id u)), (''iat'', Num (now div 1000)),
                                           (''exp'', Num (now div 1000 + 7200))]\<rparr>) =
           Send 403 ''Access Denied: You dont have correct role''"
    by (simp add: hasRole_def js_get_def)
  from 1 2 show ?thesis by simp
qed

theorem hasRole_rejects_issued_token_witness:
  "role ann = ''admin'' \<and>
   isAuthenticated example_env
     \<lparr>x_access_token = Some ann_access, authorization = None, req_user = None\<rparr> 2000000 =
     Next \<lparr>x_access_token = Some ann_access, authorization = None,
           req_user = Some [(''id'', Str ''u1''), (''iat'', Num 1000), (''exp'', Num 8200)]\<rparr> \<and>
   hasRole ''admin''
     \<lparr>x_access_token = Some ann_access, authorization = None,
      req_user = Some [(''id'', Str ''u1''), (''iat'', Num 1000), (''exp'', Num 8200)]\<rparr> =
     Send 403 ''Access Denied: You dont have correct role''"
proof -
  let ?c = "\<lparr>cred_accessToken = ann_access, cred_refreshToken = ann_refresh,
             cred_user = [(''id'', Str ''u1''), (''email'', Str ''a@b.com''),
                          (''name'', Undefined)]\<rparr>"
  let ?req = "\<lparr>x_access_token = Some ann_access, authorization = None, req_user = None\<rparr>"
  have g: "generateCredentials example_env (Some ann) 1000000 \<lparr>users = [ann], tokens = []\<rparr> =
             (Inr ?c, ann_store)"
    by (simp add: ann_store_eq generateCredentials_def Let_def TokenModel_create_def
        example_env_def ann_def ann_record_def ann_access_def ann_refresh_def user_get_def)
  have j: "js_or (x_access_token ?req) (authorization ?req) = Some (cred_accessToken ?c)"
    by (simp add: js_or_def truthy_def ann_access_def jwt_sign_def)
  have t: "(2000000::nat) div 1000 < 1000000 div 1000 + 7200" by simp
  from hasRole_rejects_issued_token [OF g j t, of "''admin''"] show ?thesis
    by (simp add: ann_def)
qed

section \<open>Refreshing\<close>

lemma refreshToken_known_user:
  assumes "jwt_verify rt (REFRESH_TOKEN_SECRET cfg) now = Inr p"
    and "js_get p ''id'' = Str k" and "k \<in> user_id ` set (users s)"
  shows "\<exists>c s'. refreshToken cfg runs rt now s = (Inr c, s') \<and> users s' = users s"
proof -
  from assms(3) have "find (\<lambda>u. user_id u = k) (users s) \<noteq> None"
    by (simp add: find_None_image)
  then obtain u where "find (\<lambda>u. user_id u = k) (users s) = Some u" by blast
  with assms(1,2) show ?thesis
    by (simp add: refreshToken_def Let_def UserModel_findById_def users_TokenModel_deleteMany
        generateCredentials_def TokenModel_create_def)
qed

text \<open>
  Claim C2. What the code does when a refresh token obtained from a login is presented
  twice: as long as the token has not expired, both calls of \<open>refreshToken\<close> return
  credentials, whether or not the store ever runs the two \<open>deleteMany\<close> queries.
  \<open>refreshToken\<close> checks signature and expiry only and never looks the token up in the
  token collection, so the second call does not fail.
\<close>

theorem refreshToken_replay:
  assumes "login cfg em pw now0 s0 = (Inr c0, s1)"
    and "now1 div 1000 < now0 div 1000 + 604800"
    and "now2 div 1000 < now0 div 1000 + 604800"
  shows "\<exists>c1 s2 c2 s3.
           refreshToken cfg runs1 (cred_refreshToken c0) now1 s1 = (Inr c1, s2) \<and>
           refreshToken cfg runs2 (cred_refreshToken c0) now2 s2 = (Inr c2, s3)"
proof -
  from assms(1) obtain u where u: "UserModel_findOne em s0 = Some u"
    and g: "generateCredentials cfg (Some u) now0 s0 = (Inr c0, s1)"
    by (auto simp: login_def split: option.splits if_splits)
  from u have ku: "user_id u \<in> user_id ` set (users s0)"
    by (auto simp: UserModel_findOne_def dest: find_Some_holds)
  from g have rt: "cred_refreshToken c0 =
      jwt_sign [(''id'', Str (user_id u))] (REFRESH_TOKEN_SECRET cfg) 604800 now0"
    and us: "users s1 = users s0"
    by (auto simp: generateCredentials_def Let_def user_get_def TokenModel_create_def)
  define p where "p = [(''id'', Str (user_id u)), (''iat'', Num (now0 div 1000)),
                       (''exp'', Num (now0 div 1000 + 604800))]"
  have v1: "jwt_verify (cred_refreshToken c0) (REFRESH_TOKEN_SECRET cfg) now1 = Inr p"
    and v2: "jwt_verify (cred_refreshToken c0) (REFRESH_TOKEN_SECRET cfg) now2 = Inr p"
    using assms(2,3) by (simp_all add: rt jwt_verify_sign_id p_def)
  have pid: "js_get p ''id'' = Str (user_id u)" by (simp add: p_def js_get_def)
  from refreshToken_known_user [OF v1 pid, of s1 runs1] ku us
  obtain c1 s2 where r1: "refreshToken cfg runs1 (cred_refreshToken c0) now1 s1 = (Inr c1, s2)"
    and us2: "users s2 = users s1" by auto
  from refreshToken_known_user [OF v2 pid, of s2 runs2] ku us us2
  obtain c2 s3 where "refreshToken cfg runs2 (cred_refreshToken c0) now2 s2 = (Inr c2, s3)"
    by auto
  with r1 show ?thesis by blast
qed

theorem refreshToken_replay_witness:
  "\<exists>c0 s1 c1 s2 c2 s3.
     login example_env ''a@b.com'' ''pw123'' 2000000 ann_store = (Inr c0, s1) \<and>
     refreshToken example_env True (cred_refreshToken c0) 3000000 s1 = (Inr c1, s2) \<and>
     refreshToken example_env True (cred_refreshToken c0) 4000000 s2 = (Inr c2, s3)"
proof -
  obtain c0 s1 where l: "login example_env ''a@b.com'' ''pw123'' 2000000 ann_store = (Inr c0, s1)"
    by (simp add: login_def UserModel_findOne_def ann_store_eq ann_def bcrypt_compare_def
        bcrypt_hash_def generateCredentials_def Let_def)
  have t1: "(3000000::nat) div 1000 < 2000000 div 1000 + 604800"
    and t2: "(4000000::nat) div 1000 < 2000000 div 1000 + 604800" by simp_all
  from refreshToken_replay [OF l t1 t2, of True True] l show ?thesis by blast
qed

lemma tokens_TokenModel_deleteMany:
  "set (tokens (TokenModel_deleteMany runs rt s)) \<subseteq> set (tokens s)"
  by (simp add: TokenModel_deleteMany_def)

text \<open>
  Claim C3. What the code does when the refresh token verifies but its subject is not
  the identifier of any user: \<open>findById\<close> returns \<open>null\<close>, \<open>generateCredentials\<close>
  reads \<open>id\<close> of it, and the call fails with that \<open>TypeError\<close>, which is not the
  \<open>UserNotFound\<close> error that \<open>login\<close> throws for a user it does not find. No token
  record is written: the token collection afterwards holds only records it held before.
\<close>

theorem refreshToken_unknown_user:
  assumes "jwt_verify rt (REFRESH_TOKEN_SECRET cfg) now = Inr p"
    and "UserModel_findById (js_get p ''id'') s = None"
  shows "refreshToken cfg runs rt now s =
           (Inl (TypeError ''id''), TokenModel_deleteMany runs rt s) \<and>
         TypeError ''id'' \<noteq> UserNotFound \<and>
         set (tokens (TokenModel_deleteMany runs rt s)) \<subseteq> set (tokens s)"
proof -
  from assms(2) have "UserModel_findById (js_get p ''id'') (TokenModel_deleteMany runs rt s) = None"
    by (simp add: UserModel_findById_def users_TokenModel_deleteMany split: jsval.splits)
  with assms(1) have "refreshToken cfg runs rt now s =
           (Inl (TypeError ''id''), TokenModel_deleteMany runs rt s)"
    by (simp add: refreshToken_def Let_def generateCredentials_def)
  moreover have "TypeError ''id'' \<noteq> UserNotFound"
    by (simp add: UserNotFound_def)
  ultimately show ?thesis
    using tokens_TokenModel_deleteMany [of runs rt s] by simp
qed

theorem refreshToken_unknown_user_witness:
  "users (snd (deleteUser ann_access ann_store)) = [] \<and>
   refreshToken example_env True ann_refresh 2000000 (snd (deleteUser ann_access ann_store)) =
     (Inl (TypeError ''id''), \<lparr>users = [], tokens = []\<rparr>) \<and>
   TypeError ''id'' \<noteq> UserNotFound"
proof -
  have d: "snd (deleteUser ann_access ann_store) = \<lparr>users = [], tokens = [ann_record]\<rparr>"
    by (simp add: deleteUser_def TokenModel_findOne_def UserModel_deleteOne_def ann_store_eq
        ann_record_def ann_def)
  have v: "jwt_verify ann_refresh (REFRESH_TOKEN_SECRET example_env) 2000000 =
             Inr [(''id'', Str ''u1''), (''iat'', Num 1000), (''exp'', Num 605800)]"
    by (simp add: ann_refresh_def example_env_def jwt_verify_sign_id)
  have f: "UserModel_findById
             (js_get [(''id'', Str ''u1''), (''iat'', Num 1000), (''exp'', Num 605800)] ''id'')
             (snd (deleteUser ann_access ann_store)) = None"
    by (simp add: d UserModel_findById_def js_get_def)
  from refreshToken_unknown_user [OF v f, of True] show ?thesis
    by (simp add: d TokenModel_deleteMany_def ann_record_def)
qed

section \<open>Changing the password\<close>

lemma find_replace_first:
  "find P xs = Some u \<Longrightarrow> find Q xs = Some u \<Longrightarrow> Q u' \<Longrightarrow>
   find Q (replace_first P u' xs) = Some u'"
proof (induction xs)
  case Nil
  then show ?case by simp
next
  case (Cons x xs)
  show ?case
  proof (cases "P x")
    case True
    with Cons.prems(1) have ux: "u = x" by simp
    have "Q x"
    proof (rule ccontr)
      assume "\<not> Q x"
      with Cons.prems(2) have "find Q xs = Some u" by simp
      then have "Q u" by (simp add: find_Some_holds)
      with ux \<open>\<not> Q x\<close> show False by simp
    qed
    with True Cons.prems(3) show ?thesis by simp
  next
    case False
    with Cons.prems(1) have pu: "find P xs = Some u" by simp
    then have "P u" by (simp add: find_Some_holds)
    with False have "u \<noteq> x" by auto
    with Cons.prems(2) have nq: "\<not> Q x" by (auto split: if_splits)
    with Cons.prems(2) have "find Q xs = Some u" by simp
    with pu Cons.IH Cons.prems(3) have "find Q (replace_first P u' xs) = Some u'" by simp
    with False nq show ?thesis by simp
  qed
qed

lemma bcrypt_compare_hash:
  "bcrypt_compare pw (bcrypt_hash pw' salt) = (take 72 pw = take 72 pw')"
  by (simp add: bcrypt_compare_def bcrypt_hash_def)

text \<open>
  Claim C5, as amended. Let the token resolve to a token record whose user is stored,
  and let that stored user be the one its email finds. For every new password that the
  old password does not match under bcrypt (so not the old password itself),
  \<open>updatePassword\<close> succeeds, a login with the old password then fails with
  \<open>InvalidCredentials\<close>, and a login with the new password returns credentials.
\<close>

theorem updatePassword_then_login:
  assumes "TokenModel_findOne t s = Some td"
    and "UserModel_findById (Str (user_id (tr_user td))) s = Some u"
    and "UserModel_findOne (email u) s = Some u"
    and "\<not> bcrypt_compare old (bcrypt_hash new salt)"
  shows "\<exists>s'. updatePassword t new salt s = (Inr True, s') \<and>
           fst (login cfg (email u) old now s') = Inl InvalidCredentials \<and>
           (\<exists>c. fst (login cfg (email u) new now s') = Inr c)"
proof -
  define u' where "u' = u\<lparr>password := bcrypt_hash new salt\<rparr>"
  define s' where "s' = s\<lparr>users := replace_first (\<lambda>v. user_id v = user_id u) u' (users s)\<rparr>"
  from assms(2) have fi: "find (\<lambda>v. user_id v = user_id (tr_user td)) (users s) = Some u"
    by (simp add: UserModel_findById_def)
  then have k: "user_id u = user_id (tr_user td)" by (auto dest: find_Some_holds)
  from fi k have fu: "find (\<lambda>v. user_id v = user_id u) (users s) = Some u" by simp
  have sv: "UserModel_save u' s = (Inr (), s')"
    using fu by (simp add: UserModel_save_def u'_def s'_def)
  have up: "updatePassword t new salt s = (Inr True, s')"
    using assms(1,2) sv by (simp add: updatePassword_def user_get_def u'_def)
  from assms(3) have fe: "find (\<lambda>v. email v = email u) (users s) = Some u"
    by (simp add: UserModel_findOne_def)
  have "find (\<lambda>v. email v = email u) (replace_first (\<lambda>v. user_id v = user_id u) u' (users s)) = Some u'"
    by (rule find_replace_first [OF fu fe]) (simp add: u'_def)
  then have fo: "UserModel_findOne (email u) s' = Some u'"
    by (simp add: UserModel_findOne_def s'_def)
  have l1: "fst (login cfg (email u) old now s') = Inl InvalidCredentials"
    using fo assms(4)
    by (simp add: login_def u'_def InvalidCredentials_def)
  have l2: "\<exists>c. fst (login cfg (email u) new now s') = Inr c"
    using fo
    by (simp add: login_def u'_def bcrypt_compare_def bcrypt_hash_def generateCredentials_def Let_def)
  from up l1 l2 show ?thesis by blast
qed

theorem updatePassword_then_login_witness:
  "\<exists>s'. updatePassword ann_access ''pw456'' ''salt3'' two_store = (Inr True, s') \<and>
         fst (login example_env ''a@b.com'' ''pw123'' 2000000 s') = Inl InvalidCredentials \<and>
         (\<exists>c. fst (login example_env ''a@b.com'' ''pw456'' 2000000 s') = Inr c)"
proof -
  have f: "TokenModel_findOne ann_access two_store = Some ann_record"
    by (simp add: two_store_eq TokenModel_findOne_def ann_record_def)
  have i: "UserModel_findById (Str (user_id (tr_user ann_record))) two_store = Some ann"
    by (simp add: two_store_eq UserModel_findById_def ann_record_def ann_def)
  have e: "UserModel_findOne (email ann) two_store = Some ann"
    by (simp add: two_store_eq UserModel_findOne_def)
  have n: "\<not> bcrypt_compare ''pw123'' (bcrypt_hash ''pw456'' ''salt3'')"
    by (simp add: bcrypt_compare_hash)
  from updatePassword_then_login [OF f i e n, of example_env 2000000] show ?thesis
    by (simp add: ann_def)
qed

text \<open>
  Claim C5 as stated quantifies over every new password. With the old password given
  again as the new one, \<open>updatePassword\<close> succeeds and the login with the old password
  succeeds too.
\<close>

theorem updatePassword_same_password_counterexample:
  "(\<exists>c. fst (login example_env ''a@b.com'' ''pw123'' 2000000 ann_store) = Inr c) \<and>
   fst (updatePassword ann_access ''pw123'' ''salt3'' ann_store) = Inr True \<and>
   fst (login example_env ''a@b.com'' ''pw123'' 2000000
          (snd (updatePassword ann_access ''pw123'' ''salt3'' ann_store))) \<noteq> Inl InvalidCredentials"
proof -
  have u: "updatePassword ann_access ''pw123'' ''salt3'' ann_store =
             (Inr True, \<lparr>users = [ann\<lparr>password := bcrypt_hash ''pw123'' ''salt3''\<rparr>],
                         tokens = [ann_record]\<rparr>)"
    by (simp add: updatePassword_def TokenModel_findOne_def UserModel_findById_def
        UserModel_save_def ann_store_eq ann_record_def user_get_def ann_def)
  have 1: "\<exists>c. fst (login example_env ''a@b.com'' ''pw123'' 2000000 ann_store) = Inr c"
    by (simp add: login_def UserModel_findOne_def ann_store_eq ann_def bcrypt_compare_hash
        generateCredentials_def Let_def)
  have 2: "fst (login example_env ''a@b.com'' ''pw123'' 2000000
             \<lparr>users = [ann\<lparr>password := bcrypt_hash ''pw123'' ''salt3''\<rparr>],
              tokens = [ann_record]\<rparr>) \<noteq> Inl InvalidCredentials"
    by (simp add: login_def UserModel_findOne_def ann_def bcrypt_compare_hash
        generateCredentials_def Let_def)
  from u 1 2 show ?thesis by simp
qed

end
